theory Spec2Isabelle
  imports Main
begin

section \<open>The WebWorker master of lib/webworker.js\<close>

text \<open>
  The master process keeps three dictionaries keyed by the worker's PID (\<open>workers\<close>,
  \<open>workerStreams\<close>, \<open>workerMsgQueue\<close>), accepts connections of spawned workers on a
  UNIX socket, binds a connection to a PID on a HANDSHAKE message and then dispatches the
  messages of that connection with \<open>handleMessage\<close>. The development follows the source
  function by function; everything a function does beyond changing the dictionaries
  (sending on a stream, ending a socket, a \<open>sys.debug\<close> line, calling \<open>onmessage\<close>,
  spawning the child) is appended to one ordered list of effects.
\<close>

subsection \<open>JavaScript values\<close>

text \<open>
  A property key of a JavaScript object is a string. \<open>KInt n\<close> stands for the canonical
  decimal string of the integer \<open>n\<close> (the key that the number \<open>n\<close> converts to) and
  \<open>KName s\<close> for any other string, such as \<open>null\<close>.
\<close>

datatype propkey = KInt int | KName string

text \<open>
  A number is an integer, or another double (a fraction, NaN, an infinity) given by the
  string it converts to. Messages are decoded MessagePack values.
\<close>

datatype jsnumber = NInt int | NOther string

datatype jsval =
    JUndefined
  | JNull
  | JBool bool
  | JNum jsnumber
  | JStr string
  | JArr "jsval list"
  | JObj "(propkey \<times> jsval) list"

fun number_key :: "jsnumber \<Rightarrow> propkey" where
  "number_key (NInt n) = KInt n"
| "number_key (NOther s) = KName s"

text \<open>\<open>cp.pid\<close> is the child's PID, and \<open>null\<close> once the child has terminated.\<close>

fun pid_key :: "int option \<Rightarrow> propkey" where
  "pid_key (Some n) = KInt n"
| "pid_key None = KName ''null''"

datatype error = AssertionError propkey | TypeError

text \<open>
  \<open>v[i]\<close>: reading a property of \<open>undefined\<close> or \<open>null\<close> throws, an index outside an
  array reads \<open>undefined\<close>, a string yields its character, a number or boolean has no
  such property.
\<close>

fun js_index :: "jsval \<Rightarrow> nat \<Rightarrow> error + jsval" where
  "js_index JUndefined i = Inl TypeError"
| "js_index JNull i = Inl TypeError"
| "js_index (JBool b) i = Inr JUndefined"
| "js_index (JNum n) i = Inr JUndefined"
| "js_index (JStr s) i = Inr (if i < length s then JStr [s ! i] else JUndefined)"
| "js_index (JArr xs) i = Inr (if i < length xs then xs ! i else JUndefined)"
| "js_index (JObj kvs) i =
     Inr (case map_of kvs (KInt (int i)) of Some v \<Rightarrow> v | None \<Rightarrow> JUndefined)"

fun js_typeof :: "jsval \<Rightarrow> string" where
  "js_typeof JUndefined = ''undefined''"
| "js_typeof JNull = ''object''"
| "js_typeof (JBool b) = ''boolean''"
| "js_typeof (JNum n) = ''number''"
| "js_typeof (JStr s) = ''string''"
| "js_typeof (JArr xs) = ''object''"
| "js_typeof (JObj kvs) = ''object''"

text \<open>
  \<open>'...' + v\<close>: whether the conversion of \<open>v\<close> to a string returns. A \<open>JObj\<close> is a
  plain object with the listed properties of its own. Its conversion calls its
  \<open>toString\<close>, which is the one of \<open>Object.prototype\<close> unless the object has a property
  of that name; a decoded value is never a function, so an own \<open>toString\<close> cannot be
  called, neither can an own \<open>valueOf\<close>, the inherited \<open>valueOf\<close> returns the object
  itself, and the conversion throws a TypeError. An array is joined: \<open>undefined\<close> and
  \<open>null\<close> give the empty string and every other element is converted in turn.
\<close>

fun to_string_returns :: "jsval \<Rightarrow> bool" where
  "to_string_returns (JArr xs) = list_all to_string_returns xs"
| "to_string_returns (JObj kvs) = (map_of kvs (KName ''toString'') = None)"
| "to_string_returns v = True"

subsection \<open>The module webworker-utils\<close>

text \<open>
  \<open>lib/webworker-utils.js\<close> is required by the source but is not part of it: its three
  message type constants and its \<open>isValidMessage\<close> are parameters of every definition
  below. \<open>MsgStream\<close>, the third thing taken from it, is modelled in the section on
  connections.
\<close>

record wwutil =
  MSGTYPE_NOOP :: int
  MSGTYPE_HANDSHAKE :: int
  MSGTYPE_USER :: int
  isValidMessage :: "jsval \<Rightarrow> bool"

subsection \<open>State\<close>

type_synonym wref = nat
type_synonym conn = nat
type_synonym callback = nat

text \<open>
  A \<open>Worker\<close> object: the script it was made for, the \<open>pid\<close> field of its child process
  \<open>cp\<close>, the copy \<open>cp_pid\<close> saved at construction, and the \<open>onmessage\<close> property, which
  the host sets to a function (identified by a number) or leaves unset.
\<close>

record worker_obj =
  src :: string
  cp :: "int option"
  cp_pid :: int
  onmessage :: "callback option"

text \<open>The listener for \<open>msg\<close> events that a \<open>MsgStream\<close> currently has.\<close>

datatype listener = HandshakeListener | Dispatcher propkey

datatype debug_line =
    InvalidMessage jsval
  | UnexpectedMessage jsval
  | MalformedMessage jsval
  | InvalidPid
  | ProcessExited int string int

datatype effect =
    Listen
  | Spawn string int
  | Send conn jsval
  | End conn
  | Debug debug_line
  | Call callback jsval

record state =
  master :: bool
  workers :: "propkey \<rightharpoonup> wref"
  workerStreams :: "propkey \<rightharpoonup> conn"
  workerMsgQueue :: "propkey \<rightharpoonup> jsval list"
  heap :: "wref \<rightharpoonup> worker_obj"
  nworkers :: nat
  msgListener :: "conn \<rightharpoonup> listener"
  nconns :: nat
  effects :: "effect list"

definition init :: state where
  "init = \<lparr>master = False, workers = Map.empty, workerStreams = Map.empty,
           workerMsgQueue = Map.empty, heap = Map.empty, nworkers = 0,
           msgListener = Map.empty, nconns = 0, effects = []\<rparr>"

definition emit :: "effect list \<Rightarrow> state \<Rightarrow> state" where
  "emit es s = s\<lparr>effects := effects s @ es\<rparr>"

text \<open>What has been passed to \<open>send\<close> of one stream, oldest first, and whether \<open>end\<close> has
  been called on its socket.\<close>

fun sent_on :: "conn \<Rightarrow> effect list \<Rightarrow> jsval list" where
  "sent_on c [] = []"
| "sent_on c (Send c' e # es) = (if c' = c then e # sent_on c es else sent_on c es)"
| "sent_on c (_ # es) = sent_on c es"

definition ended :: "conn \<Rightarrow> state \<Rightarrow> bool" where
  "ended c s = (End c \<in> set (effects s))"

subsection \<open>WorkerMaster\<close>

text \<open>The constructor: three empty dictionaries and a server listening on the path.\<close>

definition WorkerMaster :: "state \<Rightarrow> state" where
  "WorkerMaster s =
     emit [Listen] (s\<lparr>master := True, workers := Map.empty, workerStreams := Map.empty,
                      workerMsgQueue := Map.empty\<rparr>)"

definition addWorker :: "propkey \<Rightarrow> wref \<Rightarrow> state \<Rightarrow> state" where
  "addWorker pid w s = s\<lparr>workers := (workers s)(pid \<mapsto> w)\<rparr>"

definition user_envelope :: "wwutil \<Rightarrow> jsval \<Rightarrow> jsval" where
  "user_envelope u msg = JArr [JNum (NInt (MSGTYPE_USER u)), msg]"

text \<open>
  \<open>postMessage\<close>: the assertion throws when \<open>workers[pid]\<close> is missing (a stored
  \<open>Worker\<close> object is always truthy). The result is the exception thrown, if any, and the
  state the call leaves.
\<close>

definition postMessage :: "wwutil \<Rightarrow> propkey \<Rightarrow> jsval \<Rightarrow> state \<Rightarrow> error option \<times> state" where
  "postMessage u pid msg s =
     (case workers s pid of
        None \<Rightarrow> (Some (AssertionError pid), s)
      | Some w \<Rightarrow>
          (case workerStreams s pid of
             Some ms \<Rightarrow> (None, emit [Send ms (user_envelope u msg)] s)
           | None \<Rightarrow>
               (let q = (case workerMsgQueue s pid of None \<Rightarrow> [] | Some q \<Rightarrow> q)
                in (None, s\<lparr>workerMsgQueue := (workerMsgQueue s)(pid \<mapsto> q @ [msg])\<rparr>))))"

text \<open>
  \<open>handleMessage\<close>: the \<open>switch\<close> compares \<open>msg[0]\<close> with \<open>===\<close>, first against
  \<open>MSGTYPE_NOOP\<close>, then against \<open>MSGTYPE_USER\<close>. Calling \<open>onmessage\<close> is recorded as a
  \<open>Call\<close> effect; what the host's function does is outside this program. The debug line
  of the last case is built with \<open>'...' + msg\<close>, where the other debug lines use
  \<open>sys.inspect\<close>, so that case throws when the conversion of \<open>msg\<close> does. An entry of
  \<open>workers\<close> without an object in the heap, which no run produces, counts as a \<open>Worker\<close>
  without \<open>onmessage\<close>.
\<close>

definition handleMessage :: "wwutil \<Rightarrow> propkey \<Rightarrow> jsval \<Rightarrow> state \<Rightarrow> error option \<times> state" where
  "handleMessage u pid msg s =
     (case workers s pid of
        None \<Rightarrow> (Some (AssertionError pid), s)
      | Some ww \<Rightarrow>
          if \<not> isValidMessage u msg then (None, emit [Debug (InvalidMessage msg)] s)
          else
            (case js_index msg 0 of
               Inl e \<Rightarrow> (Some e, s)
             | Inr t \<Rightarrow>
                 if t = JNum (NInt (MSGTYPE_NOOP u)) then (None, s)
                 else if t = JNum (NInt (MSGTYPE_USER u)) then
                   (case heap s ww of
                      None \<Rightarrow> (None, s)
                    | Some obj \<Rightarrow>
                        (case onmessage obj of
                           None \<Rightarrow> (None, s)
                         | Some f \<Rightarrow>
                             (case js_index msg 1 of
                                Inl e \<Rightarrow> (Some e, s)
                              | Inr p \<Rightarrow> (None, emit [Call f p] s))))
                 else if to_string_returns msg
                 then (None, emit [Debug (UnexpectedMessage msg)] s)
                 else (Some TypeError, s)))"

subsection \<open>Connections\<close>

text \<open>
  The first test of the handshake listener: not an array, not of length two, first
  element not \<open>MSGTYPE_HANDSHAKE\<close>, second element not a number. The tests are made in
  this order and stop at the first that holds.
\<close>

definition malformed :: "wwutil \<Rightarrow> jsval \<Rightarrow> bool" where
  "malformed u m =
     (case m of
        JArr xs \<Rightarrow>
          (if length xs \<noteq> 2 then True
           else if xs ! 0 \<noteq> JNum (NInt (MSGTYPE_HANDSHAKE u)) then True
           else js_typeof (xs ! 1) \<noteq> ''number'')
      | _ \<Rightarrow> True)"

text \<open>
  The listener installed on a new connection. A rejected message ends the socket and
  returns; an accepted one stores the stream under the PID, replaces the listener by the
  one that calls \<open>handleMessage\<close>, sends the queued messages in the order of the queue
  and deletes the queue. \<open>pid in workers\<close> is a test for the key alone. A message that
  passes the first test is a pair whose second element is a number, so the last case of
  the definition is never taken.
\<close>

definition handshake_listener :: "wwutil \<Rightarrow> conn \<Rightarrow> jsval \<Rightarrow> state \<Rightarrow> state" where
  "handshake_listener u ms m s =
     (if malformed u m then emit [Debug (MalformedMessage m), End ms] s
      else
        (case m of
           JArr [m0, JNum n] \<Rightarrow>
             (let pid = number_key n in
              if workers s pid = None \<or> workerStreams s pid \<noteq> None
              then emit [Debug InvalidPid, End ms] s
              else
                (let s1 = s\<lparr>workerStreams := (workerStreams s)(pid \<mapsto> ms),
                             msgListener := (msgListener s)(ms \<mapsto> Dispatcher pid)\<rparr>
                 in case workerMsgQueue s1 pid of
                      None \<Rightarrow> s1
                    | Some q \<Rightarrow>
                        (emit (map (\<lambda>m. Send ms (user_envelope u m)) q) s1)
                          \<lparr>workerMsgQueue := (workerMsgQueue s1)(pid := None)\<rparr>))
         | _ \<Rightarrow> s))"

text \<open>The server's connection callback: a new \<open>MsgStream\<close> with the handshake listener.\<close>

definition connection :: "state \<Rightarrow> state" where
  "connection s =
     (if master s
      then s\<lparr>msgListener := (msgListener s)(nconns s \<mapsto> HandshakeListener),
             nconns := Suc (nconns s)\<rparr>
      else s)"

text \<open>
  Modelled from the spec: the socket and \<open>MsgStream\<close> are not in the source. A decoded
  message is raised as one \<open>msg\<close> event to the listener currently installed. Nothing in
  the source stops this after \<open>end\<close> has been called on the socket, which closes the
  writing side only.
\<close>

definition on_msg :: "wwutil \<Rightarrow> conn \<Rightarrow> jsval \<Rightarrow> state \<Rightarrow> error option \<times> state" where
  "on_msg u c m s =
     (case msgListener s c of
        None \<Rightarrow> (None, s)
      | Some HandshakeListener \<Rightarrow> (None, handshake_listener u c m s)
      | Some (Dispatcher pid) \<Rightarrow> handleMessage u pid m s)"

subsection \<open>Worker\<close>

text \<open>
  The constructor up to and including \<open>child_process.spawn\<close>, which reports the PID of
  the child: the master is created on first use, the new object is \<open>self\<close>.
\<close>

definition Worker_spawn :: "string \<Rightarrow> int \<Rightarrow> state \<Rightarrow> wref \<times> state" where
  "Worker_spawn source pid s =
     (let s1 = (if \<not> master s then WorkerMaster s else s);
          self = nworkers s1
      in (self,
          emit [Spawn source pid]
            (s1\<lparr>heap := (heap s1)(self \<mapsto>
                   \<lparr>src = source, cp = Some pid, cp_pid = pid, onmessage = None\<rparr>),
                 nworkers := Suc self\<rparr>)))"

text \<open>The field \<open>cp.pid\<close> of a \<open>Worker\<close> object, as a key.\<close>

definition cp_key :: "state \<Rightarrow> wref \<Rightarrow> propkey" where
  "cp_key s w = pid_key (case heap s w of None \<Rightarrow> None | Some obj \<Rightarrow> cp obj)"

text \<open>The whole constructor: its last statement is \<open>master.addWorker(cp.pid, self)\<close>.\<close>

definition Worker :: "string \<Rightarrow> int \<Rightarrow> state \<Rightarrow> state" where
  "Worker source pid s =
     (case Worker_spawn source pid s of (self, s2) \<Rightarrow> addWorker (cp_key s2 self) self s2)"

definition Worker_postMessage :: "wwutil \<Rightarrow> wref \<Rightarrow> jsval \<Rightarrow> state \<Rightarrow> error option \<times> state" where
  "Worker_postMessage u w msg s = postMessage u (cp_key s w) msg s"

text \<open>The host assigns \<open>w.onmessage\<close>.\<close>

definition set_onmessage :: "wref \<Rightarrow> callback option \<Rightarrow> state \<Rightarrow> state" where
  "set_onmessage w f s =
     (case heap s w of
        None \<Rightarrow> s
      | Some obj \<Rightarrow> s\<lparr>heap := (heap s)(w \<mapsto> obj\<lparr>onmessage := f\<rparr>)\<rparr>)"

text \<open>The child terminates: \<open>cp.pid\<close> becomes \<open>null\<close> and the \<open>exit\<close> listener logs.\<close>

definition child_exit :: "wref \<Rightarrow> int \<Rightarrow> state \<Rightarrow> state" where
  "child_exit w code s =
     (case heap s w of
        None \<Rightarrow> s
      | Some obj \<Rightarrow>
          emit [Debug (ProcessExited (cp_pid obj) (src obj) code)]
            (s\<lparr>heap := (heap s)(w \<mapsto> obj\<lparr>cp := None\<rparr>)\<rparr>))"

subsection \<open>Runs\<close>

text \<open>
  What can happen to the master process: the host makes a worker, posts a message, sets
  a callback; a child terminates; a connection arrives; a message arrives on one. Each
  runs to completion before the next. \<open>exec\<close> is the state an event leaves, whether it
  returned or threw. The output that a child writes is passed on to the host's own
  streams and is not part of the state.
\<close>

datatype event =
    NewWorker string int
  | PostMessage wref jsval
  | SetOnmessage wref "callback option"
  | Exit wref int
  | Connect
  | Msg conn jsval

fun step :: "wwutil \<Rightarrow> event \<Rightarrow> state \<Rightarrow> error option \<times> state" where
  "step u (NewWorker source pid) s = (None, Worker source pid s)"
| "step u (PostMessage w msg) s = Worker_postMessage u w msg s"
| "step u (SetOnmessage w f) s = (None, set_onmessage w f s)"
| "step u (Exit w code) s = (None, child_exit w code s)"
| "step u Connect s = (None, connection s)"
| "step u (Msg c m) s = on_msg u c m s"

definition exec :: "wwutil \<Rightarrow> event \<Rightarrow> state \<Rightarrow> state" where
  "exec u ev s = snd (step u ev s)"

definition run :: "wwutil \<Rightarrow> event list \<Rightarrow> state \<Rightarrow> state" where
  "run u evs s = fold (exec u) evs s"

text \<open>
  Modelled from the spec: the constants and \<open>isValidMessage\<close> of webworker-utils, for
  evaluation at concrete inputs only. NOOP is 0 as in the example \<open>[0, 99]\<close>, the wire
  format is a sequence of two elements, and the numbers 1 and 100 are arbitrary.
\<close>

definition wwutil0 :: wwutil where
  "wwutil0 = \<lparr>MSGTYPE_NOOP = 0, MSGTYPE_HANDSHAKE = 1, MSGTYPE_USER = 100,
              isValidMessage = (\<lambda>m. case m of JArr xs \<Rightarrow> length xs = 2 | _ \<Rightarrow> False)\<rparr>"

subsection \<open>Auxiliary notions for the proofs\<close>

text \<open>The pending queue of a PID, empty when the dictionary has no entry for it.\<close>

definition queue_of :: "state \<Rightarrow> propkey \<Rightarrow> jsval list" where
  "queue_of s pid = (case workerMsgQueue s pid of None \<Rightarrow> [] | Some q \<Rightarrow> q)"

text \<open>
  What holds of the three dictionaries in every state that a run reaches: streams and
  queues exist for registered PIDs only, never both for one PID; every key is the key of
  an integer; the PID a \<open>Worker\<close> object was made with is registered; and before the
  master exists there is nothing.
\<close>

definition consistent :: "state \<Rightarrow> bool" where
  "consistent s \<longleftrightarrow>
     (\<forall>k. workerStreams s k \<noteq> None \<longrightarrow> workers s k \<noteq> None) \<and>
     (\<forall>k. workerMsgQueue s k \<noteq> None \<longrightarrow> workers s k \<noteq> None) \<and>
     (\<forall>k. workerStreams s k \<noteq> None \<longrightarrow> workerMsgQueue s k = None) \<and>
     (\<forall>k. workers s k \<noteq> None \<longrightarrow> (\<exists>n. k = KInt n)) \<and>
     (\<forall>w obj. heap s w = Some obj \<longrightarrow> workers s (KInt (cp_pid obj)) \<noteq> None) \<and>
     (\<not> master s \<longrightarrow>
        workers s = Map.empty \<and> workerStreams s = Map.empty \<and>
        workerMsgQueue s = Map.empty \<and> heap s = Map.empty)"

text \<open>
  The payloads that an event posts to a PID: the message of a \<open>postMessage\<close> call of a
  \<open>Worker\<close> whose \<open>cp.pid\<close> is that PID, when the assertion of \<open>postMessage\<close> holds.
  \<open>posted\<close> collects them along a run, in the order of the calls.
\<close>

fun accepted :: "propkey \<Rightarrow> event \<Rightarrow> state \<Rightarrow> jsval list" where
  "accepted pid (PostMessage w msg) s =
     (if cp_key s w = pid \<and> workers s pid \<noteq> None then [msg] else [])"
| "accepted pid _ s = []"

fun posted :: "wwutil \<Rightarrow> propkey \<Rightarrow> event list \<Rightarrow> state \<Rightarrow> jsval list" where
  "posted u pid [] s = []"
| "posted u pid (ev # evs) s = accepted pid ev s @ posted u pid evs (exec u ev s)"

text \<open>
  The connections of a reachable state: no listener beyond the connections made so
  far; a PID has a stream exactly when that stream dispatches for it; nothing has been
  sent on a stream that dispatches for nobody.
\<close>

definition structured :: "state \<Rightarrow> bool" where
  "structured s \<longleftrightarrow>
     (\<forall>c. nconns s \<le> c \<longrightarrow> msgListener s c = None) \<and>
     (\<forall>pid c. (workerStreams s pid = Some c) = (msgListener s c = Some (Dispatcher pid))) \<and>
     (\<forall>c. (\<forall>pid. msgListener s c \<noteq> Some (Dispatcher pid)) \<longrightarrow> sent_on c (effects s) = [])"

text \<open>
  The messages \<open>h\<close> posted to a PID are what has been sent on its stream, or what waits
  in its queue when it has none.
\<close>

definition tracked :: "wwutil \<Rightarrow> propkey \<Rightarrow> state \<Rightarrow> jsval list \<Rightarrow> bool" where
  "tracked u pid s h =
     (case workerStreams s pid of
        Some c \<Rightarrow> sent_on c (effects s) = map (user_envelope u) h
      | None \<Rightarrow> queue_of s pid = h)"

text \<open>An event that leaves streams, queues and listeners alone and sends nothing.\<close>

definition quiet :: "state \<Rightarrow> state \<Rightarrow> bool" where
  "quiet s s' \<longleftrightarrow>
     workerStreams s' = workerStreams s \<and> workerMsgQueue s' = workerMsgQueue s \<and>
     msgListener s' = msgListener s \<and> nconns s' = nconns s \<and>
     (\<forall>c. sent_on c (effects s') = sent_on c (effects s))"


section \<open>Properties\<close>

lemmas model_defs =
  run_def exec_def Worker_def Worker_spawn_def WorkerMaster_def addWorker_def emit_def
  cp_key_def connection_def init_def Let_def on_msg_def ended_def handshake_listener_def
  malformed_def handleMessage_def postMessage_def Worker_postMessage_def set_onmessage_def
  child_exit_def wwutil0_def user_envelope_def queue_of_def

subsection \<open>Sending and queueing\<close>

lemma sent_on_append: "sent_on c (xs @ ys) = sent_on c xs @ sent_on c ys"
  by (induction c xs rule: sent_on.induct) auto

lemma sent_on_sends: "sent_on c (map (\<lambda>m. Send c (f m)) q) = map f q"
  by (induction q) auto

lemma handshake_accept:
  fixes u :: wwutil and c :: conn
  assumes "workers s pid = Some w" "workerStreams s pid = None" "number_key n = pid"
  defines "s2 \<equiv> handshake_listener u c (JArr [JNum (NInt (MSGTYPE_HANDSHAKE u)), JNum n]) s"
  shows "workers s2 = workers s" "workerStreams s2 = (workerStreams s)(pid \<mapsto> c)"
    "msgListener s2 = (msgListener s)(c \<mapsto> Dispatcher pid)"
    "workerMsgQueue s2 = (workerMsgQueue s)(pid := None)"
    "effects s2 = effects s @ map (\<lambda>m. Send c (user_envelope u m)) (queue_of s pid)"
  using assms
  by (auto simp: handshake_listener_def malformed_def emit_def queue_of_def Let_def
      split: option.splits)

subsection \<open>The handshake test\<close>

lemma typeof_number: "js_typeof v = ''number'' \<Longrightarrow> \<exists>n. v = JNum n"
  by (cases v) simp_all

lemma well_formed_handshake:
  assumes "\<not> malformed u m"
  shows "\<exists>n. m = JArr [JNum (NInt (MSGTYPE_HANDSHAKE u)), JNum n]"
proof -
  from assms obtain xs where m: "m = JArr xs"
    by (cases m) (simp_all add: malformed_def)
  from assms m have l: "length xs = 2" and h: "xs ! 0 = JNum (NInt (MSGTYPE_HANDSHAKE u))"
    and ty: "js_typeof (xs ! 1) = ''number''"
    by (simp_all add: malformed_def split: if_splits)
  from l obtain a b where xs: "xs = [a, b]"
    by (auto simp: numeral_2_eq_2 length_Suc_conv)
  from ty xs obtain n where "b = JNum n"
    using typeof_number by auto
  with h xs m show ?thesis by simp
qed

lemma handshake_reject:
  assumes "\<not> (\<exists>n. m = JArr [JNum (NInt (MSGTYPE_HANDSHAKE u)), JNum n] \<and>
              workers s (number_key n) \<noteq> None \<and> workerStreams s (number_key n) = None)"
  shows "\<exists>d. handshake_listener u c m s = emit [Debug d, End c] s"
proof (cases "malformed u m")
  case True
  then have "handshake_listener u c m s = emit [Debug (MalformedMessage m), End c] s"
    by (simp add: handshake_listener_def)
  then show ?thesis by blast
next
  case False
  then obtain n where m: "m = JArr [JNum (NInt (MSGTYPE_HANDSHAKE u)), JNum n]"
    using well_formed_handshake by blast
  with assms have "workers s (number_key n) = None \<or> workerStreams s (number_key n) \<noteq> None"
    by auto
  with False m have "handshake_listener u c m s = emit [Debug InvalidPid, End c] s"
    by (auto simp: handshake_listener_def)
  then show ?thesis by blast
qed

subsection \<open>What every reachable state satisfies\<close>

lemma consistent_init: "consistent init"
  by (simp add: consistent_def init_def)

lemma consistent_Worker: "consistent s \<Longrightarrow> consistent (Worker source pid s)"
  by (auto simp: consistent_def Worker_def Worker_spawn_def WorkerMaster_def addWorker_def
      emit_def cp_key_def Let_def split: if_splits)

lemma consistent_postMessage: "consistent s \<Longrightarrow> consistent (snd (postMessage u pid msg s))"
  by (auto simp: consistent_def postMessage_def emit_def Let_def
      split: option.splits if_splits)

lemma consistent_set_onmessage: "consistent s \<Longrightarrow> consistent (set_onmessage w f s)"
  by (auto simp: consistent_def set_onmessage_def split: option.splits if_splits)

lemma consistent_child_exit: "consistent s \<Longrightarrow> consistent (child_exit w code s)"
  by (auto simp: consistent_def child_exit_def emit_def split: option.splits if_splits)

lemma consistent_connection: "consistent s \<Longrightarrow> consistent (connection s)"
  by (auto simp: consistent_def connection_def)

lemma consistent_handleMessage: "consistent s \<Longrightarrow> consistent (snd (handleMessage u pid m s))"
  by (auto simp: consistent_def handleMessage_def emit_def split: option.splits sum.splits)

lemma consistent_handshake: "consistent s \<Longrightarrow> consistent (handshake_listener u c m s)"
  unfolding handshake_listener_def
  by (auto simp: consistent_def emit_def Let_def
      split: jsval.splits list.splits option.splits)

lemma consistent_exec: "consistent s \<Longrightarrow> consistent (exec u ev s)"
  by (cases ev)
    (auto simp: exec_def Worker_postMessage_def on_msg_def consistent_Worker
      consistent_postMessage consistent_set_onmessage consistent_child_exit
      consistent_connection consistent_handleMessage consistent_handshake
      split: option.splits listener.splits)

lemma consistent_run: "consistent s \<Longrightarrow> consistent (run u evs s)"
  unfolding run_def by (induction evs arbitrary: s) (simp_all add: consistent_exec)

lemma consistent_reachable: "consistent (run u evs init)"
  by (simp add: consistent_run consistent_init)

subsection \<open>What no event undoes\<close>

lemma binding_exec:
  assumes "consistent s" and "workerStreams s pid = Some c"
  shows "workerStreams (exec u ev s) pid = Some c"
proof -
  have m: "master s" using assms by (auto simp: consistent_def)
  show ?thesis
  proof (cases ev)
    case (Msg c' m')
    with assms show ?thesis
      by (auto simp: exec_def on_msg_def handshake_listener_def handleMessage_def emit_def
          Let_def split: option.splits listener.splits sum.splits jsval.splits list.splits)
  next
    case (NewWorker source pid')
    with assms m show ?thesis
      by (simp add: exec_def Worker_def Worker_spawn_def addWorker_def emit_def Let_def)
  next
    case (PostMessage w msg)
    with assms show ?thesis
      by (simp add: exec_def Worker_postMessage_def postMessage_def emit_def Let_def
          split: option.splits)
  next
    case (SetOnmessage w f)
    with assms show ?thesis by (simp add: exec_def set_onmessage_def split: option.splits)
  next
    case (Exit w code)
    with assms show ?thesis
      by (simp add: exec_def child_exit_def emit_def split: option.splits)
  next
    case Connect
    with assms show ?thesis by (simp add: exec_def connection_def)
  qed
qed

lemma binding_run:
  "consistent s \<Longrightarrow> workerStreams s pid = Some c \<Longrightarrow>
   workerStreams (run u evs s) pid = Some c"
  unfolding run_def
  by (induction evs arbitrary: s) (simp_all add: binding_exec consistent_exec)

lemma registered_exec:
  assumes "master s" and "workers s k \<noteq> None"
  shows "master (exec u ev s) \<and> workers (exec u ev s) k \<noteq> None"
proof (cases ev)
  case (Msg c' m')
  with assms show ?thesis
    by (auto simp: exec_def on_msg_def handshake_listener_def handleMessage_def emit_def
        Let_def split: option.splits listener.splits sum.splits jsval.splits list.splits)
next
  case (NewWorker source pid')
  with assms show ?thesis
    by (auto simp: exec_def Worker_def Worker_spawn_def addWorker_def emit_def Let_def)
next
  case (PostMessage w msg)
  with assms show ?thesis
    by (auto simp: exec_def Worker_postMessage_def postMessage_def emit_def Let_def
        split: option.splits)
next
  case (SetOnmessage w f)
  with assms show ?thesis by (auto simp: exec_def set_onmessage_def split: option.splits)
next
  case (Exit w code)
  with assms show ?thesis
    by (auto simp: exec_def child_exit_def emit_def split: option.splits)
next
  case Connect
  with assms show ?thesis by (auto simp: exec_def connection_def)
qed

lemma registered_run:
  "master s \<Longrightarrow> workers s k \<noteq> None \<Longrightarrow> workers (run u evs s) k \<noteq> None"
  unfolding run_def
proof (induction evs arbitrary: s)
  case Nil
  then show ?case by simp
next
  case (Cons ev evs)
  from registered_exec [OF Cons.prems, of u ev] show ?case
    by (simp add: Cons.IH)
qed

subsection \<open>What has been posted and what has been sent\<close>

lemma quiet_structured: "quiet s s' \<Longrightarrow> structured s \<Longrightarrow> structured s'"
  by (simp add: quiet_def structured_def)

lemma quiet_tracked: "quiet s s' \<Longrightarrow> tracked u pid s h \<Longrightarrow> tracked u pid s' h"
  by (auto simp: quiet_def tracked_def queue_of_def split: option.splits)

lemma quiet_Worker: "consistent s \<Longrightarrow> quiet s (Worker source pid s)"
  by (cases "master s")
    (simp_all add: quiet_def consistent_def Worker_def Worker_spawn_def WorkerMaster_def
      addWorker_def emit_def Let_def sent_on_append)

lemma quiet_set_onmessage: "quiet s (set_onmessage w f s)"
  by (simp add: quiet_def set_onmessage_def split: option.splits)

lemma quiet_child_exit: "quiet s (child_exit w code s)"
  by (simp add: quiet_def child_exit_def emit_def sent_on_append split: option.splits)

lemma quiet_handleMessage: "quiet s (snd (handleMessage u pid m s))"
  by (simp add: quiet_def handleMessage_def emit_def sent_on_append
      split: option.splits sum.splits)

lemma quiet_reject: "quiet s (emit [Debug d, End c] s)"
  by (simp add: quiet_def emit_def sent_on_append)

lemma quiet_post_unknown:
  "workers s pid = None \<Longrightarrow> quiet s (snd (postMessage u pid msg s))"
  by (simp add: quiet_def postMessage_def)

lemma structured_connection:
  assumes "structured s"
  shows "structured (connection s)"
proof (cases "master s")
  case False
  with assms show ?thesis by (simp add: connection_def)
next
  case True
  let ?s' = "connection s"
  have f: "workerStreams ?s' = workerStreams s" "effects ?s' = effects s"
    "nconns ?s' = Suc (nconns s)"
    "msgListener ?s' = (msgListener s)(nconns s \<mapsto> HandshakeListener)"
    using True by (simp_all add: connection_def)
  have old: "msgListener s (nconns s) = None"
    using assms by (simp add: structured_def)
  have a: "\<forall>c. nconns ?s' \<le> c \<longrightarrow> msgListener ?s' c = None"
    using assms by (simp add: f structured_def)
  have b: "\<forall>pid c. (workerStreams ?s' pid = Some c) = (msgListener ?s' c = Some (Dispatcher pid))"
  proof (intro allI)
    fix pid c
    show "(workerStreams ?s' pid = Some c) = (msgListener ?s' c = Some (Dispatcher pid))"
    proof (cases "c = nconns s")
      case True
      with old assms have "workerStreams s pid \<noteq> Some c" by (simp add: structured_def)
      with True show ?thesis by (simp add: f)
    next
      case False
      with assms show ?thesis by (simp add: f structured_def)
    qed
  qed
  have c: "\<forall>c. (\<forall>pid. msgListener ?s' c \<noteq> Some (Dispatcher pid)) \<longrightarrow>
             sent_on c (effects ?s') = []"
  proof (intro allI impI)
    fix c
    assume h: "\<forall>pid. msgListener ?s' c \<noteq> Some (Dispatcher pid)"
    show "sent_on c (effects ?s') = []"
    proof (cases "c = nconns s")
      case True
      with old assms show ?thesis by (simp add: f structured_def)
    next
      case False
      with h assms show ?thesis by (simp add: f structured_def)
    qed
  qed
  from a b c show ?thesis by (simp add: structured_def)
qed

lemma tracked_cong:
  "workerStreams s' = workerStreams s \<Longrightarrow> workerMsgQueue s' = workerMsgQueue s \<Longrightarrow>
   (\<forall>c. sent_on c (effects s') = sent_on c (effects s)) \<Longrightarrow>
   tracked u pid s h \<Longrightarrow> tracked u pid s' h"
  by (auto simp: tracked_def queue_of_def split: option.splits)

lemma tracked_connection: "tracked u pid s h \<Longrightarrow> tracked u pid (connection s) h"
  by (rule tracked_cong [of _ s]) (simp_all add: connection_def)

text \<open>Posting to a registered PID.\<close>

lemma structured_post:
  assumes "structured s"
  shows "structured (snd (postMessage u k msg s))"
proof (cases "workers s k")
  case None
  from quiet_structured [OF quiet_post_unknown [OF None] assms] show ?thesis .
next
  case (Some w)
  show ?thesis
  proof (cases "workerStreams s k")
    case None
    with Some have "msgListener (snd (postMessage u k msg s)) = msgListener s"
      "workerStreams (snd (postMessage u k msg s)) = workerStreams s"
      "nconns (snd (postMessage u k msg s)) = nconns s"
      "effects (snd (postMessage u k msg s)) = effects s"
      by (simp_all add: postMessage_def Let_def)
    with assms show ?thesis by (simp add: structured_def)
  next
    case (Some c)
    with \<open>workers s k = Some w\<close>
    have f: "msgListener (snd (postMessage u k msg s)) = msgListener s"
      "workerStreams (snd (postMessage u k msg s)) = workerStreams s"
      "nconns (snd (postMessage u k msg s)) = nconns s"
      "effects (snd (postMessage u k msg s)) = effects s @ [Send c (user_envelope u msg)]"
      by (simp_all add: postMessage_def emit_def)
    from assms Some have l: "msgListener s c = Some (Dispatcher k)"
      by (simp add: structured_def)
    have "\<forall>c'. (\<forall>pid. msgListener s c' \<noteq> Some (Dispatcher pid)) \<longrightarrow>
             sent_on c' (effects s @ [Send c (user_envelope u msg)]) = []"
    proof (intro allI impI)
      fix c'
      assume h: "\<forall>pid. msgListener s c' \<noteq> Some (Dispatcher pid)"
      with l have "c' \<noteq> c" by auto
      with h assms show "sent_on c' (effects s @ [Send c (user_envelope u msg)]) = []"
        by (simp add: sent_on_append structured_def)
    qed
    with assms show ?thesis by (simp add: f structured_def)
  qed
qed

lemma tracked_post:
  assumes "structured s" and "tracked u pid s h"
  shows "tracked u pid (snd (postMessage u k msg s))
           (h @ (if k = pid \<and> workers s pid \<noteq> None then [msg] else []))"
proof (cases "workers s k")
  case None
  from quiet_tracked [OF quiet_post_unknown [OF None] assms(2)] None show ?thesis by auto
next
  case (Some w)
  let ?s' = "snd (postMessage u k msg s)"
  show ?thesis
  proof (cases "workerStreams s k")
    case None
    with Some have f: "workerStreams ?s' = workerStreams s" "effects ?s' = effects s"
      "workerMsgQueue ?s' = (workerMsgQueue s)(k \<mapsto> queue_of s k @ [msg])"
      by (simp_all add: postMessage_def Let_def queue_of_def)
    show ?thesis
    proof (cases "k = pid")
      case True
      with None Some assms(2) f show ?thesis by (simp add: tracked_def queue_of_def)
    next
      case False
      with assms(2) show ?thesis
        by (auto simp: tracked_def f queue_of_def split: option.splits)
    qed
  next
    case (Some c)
    with \<open>workers s k = Some w\<close>
    have f: "workerStreams ?s' = workerStreams s"
      "workerMsgQueue ?s' = workerMsgQueue s"
      "effects ?s' = effects s @ [Send c (user_envelope u msg)]"
      by (simp_all add: postMessage_def emit_def)
    show ?thesis
    proof (cases "k = pid")
      case True
      with Some \<open>workers s k = Some w\<close> assms(2) f show ?thesis
        by (simp add: tracked_def sent_on_append)
    next
      case False
      have "\<And>c'. workerStreams s pid = Some c' \<Longrightarrow> c' \<noteq> c"
      proof
        fix c' assume "workerStreams s pid = Some c'" and "c' = c"
        with Some assms(1) have "Dispatcher pid = Dispatcher k"
          by (simp add: structured_def)
        with False show False by simp
      qed
      with False assms(2) show ?thesis
        by (auto simp: tracked_def f queue_of_def sent_on_append split: option.splits)
    qed
  qed
qed

lemma handshake_accept_nconns:
  "nconns (handshake_listener u c m s) = nconns s"
  by (auto simp: handshake_listener_def emit_def Let_def
      split: jsval.splits list.splits option.splits)

lemma structuredD1: "structured s \<Longrightarrow> nconns s \<le> c \<Longrightarrow> msgListener s c = None"
  by (simp add: structured_def)

lemma structuredD2:
  "structured s \<Longrightarrow> (workerStreams s pid = Some c) = (msgListener s c = Some (Dispatcher pid))"
  by (simp add: structured_def)

lemma structuredD3:
  "structured s \<Longrightarrow> \<forall>pid. msgListener s c \<noteq> Some (Dispatcher pid) \<Longrightarrow>
   sent_on c (effects s) = []"
  by (simp add: structured_def)

lemma sent_on_other:
  "c' \<noteq> c \<Longrightarrow> sent_on c' (map (\<lambda>m. Send c (f m)) q) = []"
  by (induction q) auto

lemma structured_bind:
  fixes u :: wwutil and c :: conn
  assumes st: "structured s" and l: "msgListener s c = Some HandshakeListener"
    and w: "workers s k = Some w" and ub: "workerStreams s k = None" and n: "number_key n = k"
  defines "s' \<equiv> handshake_listener u c (JArr [JNum (NInt (MSGTYPE_HANDSHAKE u)), JNum n]) s"
  shows "structured s'"
proof -
  note f = handshake_accept [OF w ub n, of u c, folded s'_def]
  have nc: "nconns s' = nconns s" by (simp add: s'_def handshake_accept_nconns)
  have a: "\<forall>c'. nconns s' \<le> c' \<longrightarrow> msgListener s' c' = None"
  proof (intro allI impI)
    fix c' assume "nconns s' \<le> c'"
    with st nc have "msgListener s c' = None" by (simp add: structuredD1)
    with l show "msgListener s' c' = None" by (auto simp: f)
  qed
  have b: "\<forall>pid c'. (workerStreams s' pid = Some c') = (msgListener s' c' = Some (Dispatcher pid))"
  proof (intro allI)
    fix pid c'
    note e = structuredD2 [OF st, of pid c']
    from structuredD2 [OF st, of pid c] l have nb: "workerStreams s pid \<noteq> Some c"
      by simp
    from structuredD2 [OF st, of k c'] ub have nk: "msgListener s c' \<noteq> Some (Dispatcher k)"
      by simp
    show "(workerStreams s' pid = Some c') = (msgListener s' c' = Some (Dispatcher pid))"
      using e nb nk by (auto simp: f)
  qed
  have c: "\<forall>c'. (\<forall>pid. msgListener s' c' \<noteq> Some (Dispatcher pid)) \<longrightarrow>
             sent_on c' (effects s') = []"
  proof (intro allI impI)
    fix c' assume h: "\<forall>pid. msgListener s' c' \<noteq> Some (Dispatcher pid)"
    then have ne: "c' \<noteq> c" by (auto simp: f)
    with h have "\<forall>pid. msgListener s c' \<noteq> Some (Dispatcher pid)" by (simp add: f)
    with st have "sent_on c' (effects s) = []" by (simp add: structuredD3)
    moreover from ne have "sent_on c' (map (\<lambda>m. Send c (user_envelope u m)) (queue_of s k)) = []"
      by (rule sent_on_other)
    ultimately show "sent_on c' (effects s') = []" by (simp add: f sent_on_append)
  qed
  from a b c show ?thesis by (simp add: structured_def)
qed


lemma tracked_bind:
  fixes u :: wwutil and c :: conn
  assumes st: "structured s" and l: "msgListener s c = Some HandshakeListener"
    and w: "workers s k = Some w" and ub: "workerStreams s k = None" and n: "number_key n = k"
    and tr: "tracked u pid s h"
  defines "s' \<equiv> handshake_listener u c (JArr [JNum (NInt (MSGTYPE_HANDSHAKE u)), JNum n]) s"
  shows "tracked u pid s' h"
proof (cases "k = pid")
  case True
  note f = handshake_accept [OF w ub n, of u c, folded s'_def]
  from l have "\<forall>p. msgListener s c \<noteq> Some (Dispatcher p)" by simp
  with st have "sent_on c (effects s) = []" by (rule structuredD3)
  moreover from tr ub True have "queue_of s k = h" by (simp add: tracked_def)
  ultimately show ?thesis
    using True by (simp add: tracked_def f sent_on_append sent_on_sends)
next
  case False
  note f = handshake_accept [OF w ub n, of u c, folded s'_def]
  show ?thesis
  proof (cases "workerStreams s pid")
    case None
    with False tr show ?thesis by (simp add: tracked_def f queue_of_def)
  next
    case (Some c')
    with structuredD2 [OF st, of pid c'] l have "c' \<noteq> c" by auto
    with Some False tr show ?thesis
      by (simp add: tracked_def f sent_on_append sent_on_other)
  qed
qed

lemma handshake_invariants:
  assumes st: "structured s" and tr: "tracked u pid s h"
    and l: "msgListener s c = Some HandshakeListener"
  shows "structured (handshake_listener u c m s) \<and> tracked u pid (handshake_listener u c m s) h"
proof (cases "\<exists>n. m = JArr [JNum (NInt (MSGTYPE_HANDSHAKE u)), JNum n] \<and>
              workers s (number_key n) \<noteq> None \<and> workerStreams s (number_key n) = None")
  case True
  then obtain n w where m: "m = JArr [JNum (NInt (MSGTYPE_HANDSHAKE u)), JNum n]"
    and w: "workers s (number_key n) = Some w" and ub: "workerStreams s (number_key n) = None"
    by auto
  from structured_bind [OF st l w ub refl, of u] tracked_bind [OF st l w ub refl tr]
  show ?thesis by (simp add: m)
next
  case False
  from handshake_reject [OF False, of c] obtain d
    where d: "handshake_listener u c m s = emit [Debug d, End c] s" by blast
  from quiet_structured [OF quiet_reject st, of d c] quiet_tracked [OF quiet_reject tr, of d c]
  show ?thesis by (simp add: d)
qed

lemma exec_invariants:
  assumes co: "consistent s" and st: "structured s" and tr: "tracked u pid s h"
  shows "structured (exec u ev s) \<and> tracked u pid (exec u ev s) (h @ accepted pid ev s)"
proof (cases ev)
  case (NewWorker source p)
  from quiet_Worker [OF co, of source p] st tr show ?thesis
    by (simp add: NewWorker exec_def quiet_structured quiet_tracked)
next
  case (PostMessage w msg)
  from structured_post [OF st, of u "cp_key s w" msg]
    tracked_post [OF st tr, of "cp_key s w" msg]
  show ?thesis by (simp add: PostMessage exec_def Worker_postMessage_def)
next
  case (SetOnmessage w f)
  from quiet_set_onmessage [of s w f] st tr show ?thesis
    by (simp add: SetOnmessage exec_def quiet_structured quiet_tracked)
next
  case (Exit w code)
  from quiet_child_exit [of s w code] st tr show ?thesis
    by (simp add: Exit exec_def quiet_structured quiet_tracked)
next
  case Connect
  from structured_connection [OF st] tracked_connection [OF tr] show ?thesis
    by (simp add: Connect exec_def)
next
  case (Msg c m)
  show ?thesis
  proof (cases "msgListener s c")
    case None
    with st tr show ?thesis by (simp add: Msg exec_def on_msg_def)
  next
    case (Some li)
    show ?thesis
    proof (cases li)
      case HandshakeListener
      with Some have l: "msgListener s c = Some HandshakeListener" by simp
      from handshake_invariants [OF st tr l, of m] show ?thesis
        by (simp add: Msg exec_def on_msg_def l)
    next
      case (Dispatcher k)
      from quiet_handleMessage [of s u k m] st tr show ?thesis
        by (simp add: Msg exec_def on_msg_def Some Dispatcher
            quiet_structured quiet_tracked)
    qed
  qed
qed

lemma run_invariants:
  "consistent s \<Longrightarrow> structured s \<Longrightarrow> tracked u pid s h \<Longrightarrow>
   structured (run u evs s) \<and> tracked u pid (run u evs s) (h @ posted u pid evs s)"
proof (induction evs arbitrary: s h)
  case Nil
  then show ?case by (simp add: run_def)
next
  case (Cons ev evs)
  from exec_invariants [OF Cons.prems, of ev]
  have st: "structured (exec u ev s)"
    and tr: "tracked u pid (exec u ev s) (h @ accepted pid ev s)" by simp_all
  from Cons.IH [OF consistent_exec [OF Cons.prems(1)] st tr]
  show ?case by (simp add: run_def)
qed

lemma structured_init: "structured init"
  by (simp add: structured_def init_def)

lemma tracked_init: "tracked u pid init []"
  by (simp add: tracked_def init_def queue_of_def)

lemma run_tracked: "tracked u pid (run u evs init) (posted u pid evs init)"
  using run_invariants [OF consistent_init structured_init tracked_init, where u = u
      and pid = pid and evs = evs]
  by simp

lemma consistent_unqueued:
  "consistent s \<Longrightarrow> workerStreams s pid = Some c \<Longrightarrow> workerMsgQueue s pid = None"
  by (simp add: consistent_def)


section \<open>The claims\<close>

subsection \<open>C1: the pending queue is flushed in order\<close>

text \<open>
  C1. Take any run from the start after which a PID is registered and has no stream,
  and a connection that still has the handshake listener. Then the queue of the PID holds
  exactly the messages posted to it during the run, in the order of the calls, and
  nothing has been sent on the connection. When the handshake naming the PID arrives on
  the connection, exactly these messages are sent on it as USER envelopes, in that
  order and with nothing in between, and the queue is deleted. Whatever happens later,
  the PID keeps this stream and has no queue, and what has been sent on the stream is
  the queued messages followed by the messages posted after the handshake, in the order
  of the calls.
\<close>

theorem queued_messages_flushed_in_order:
  fixes u :: wwutil and c :: conn
  assumes ub: "workerStreams (run u evs init) pid = None"
    and w: "workers (run u evs init) pid = Some w"
    and l: "msgListener (run u evs init) c = Some HandshakeListener"
    and n: "number_key n = pid"
  defines "s2 \<equiv> exec u (Msg c (JArr [JNum (NInt (MSGTYPE_HANDSHAKE u)), JNum n])) (run u evs init)"
  shows "queue_of (run u evs init) pid = posted u pid evs init \<and>
         sent_on c (effects (run u evs init)) = [] \<and>
         workerStreams s2 pid = Some c \<and>
         effects s2 = effects (run u evs init) @
           map (\<lambda>m. Send c (user_envelope u m)) (posted u pid evs init) \<and>
         sent_on c (effects s2) = map (user_envelope u) (posted u pid evs init) \<and>
         workerMsgQueue s2 pid = None \<and>
         (\<forall>evs'. workerStreams (run u evs' s2) pid = Some c \<and>
                 workerMsgQueue (run u evs' s2) pid = None \<and>
                 sent_on c (effects (run u evs' s2)) =
                   map (user_envelope u) (posted u pid evs init) @
                   map (user_envelope u) (posted u pid evs' s2))"
proof -
  let ?s1 = "run u evs init"
  let ?h = "posted u pid evs init"
  have co1: "consistent ?s1" by (rule consistent_reachable)
  from run_invariants [OF consistent_init structured_init tracked_init, where u = u
      and pid = pid and evs = evs]
  have st1: "structured ?s1" and tr1: "tracked u pid ?s1 ?h" by simp_all
  from tr1 ub have q: "queue_of ?s1 pid = ?h" by (simp add: tracked_def)
  from l have "\<forall>p. msgListener ?s1 c \<noteq> Some (Dispatcher p)" by simp
  with st1 have silent: "sent_on c (effects ?s1) = []" by (rule structuredD3)
  have s2: "s2 = handshake_listener u c (JArr [JNum (NInt (MSGTYPE_HANDSHAKE u)), JNum n]) ?s1"
    using l by (simp add: s2_def exec_def on_msg_def)
  note f = handshake_accept [OF w ub n, of u c, folded s2]
  have b2: "workerStreams s2 pid = Some c" by (simp add: f)
  have e2: "effects s2 = effects ?s1 @ map (\<lambda>m. Send c (user_envelope u m)) ?h"
    by (simp add: f q)
  have se2: "sent_on c (effects s2) = map (user_envelope u) ?h"
    by (simp add: e2 sent_on_append sent_on_sends silent)
  have co2: "consistent s2" unfolding s2_def by (rule consistent_exec [OF co1])
  have st2: "structured s2" and tr2: "tracked u pid s2 ?h"
    using exec_invariants [OF co1 st1 tr1,
        of "Msg c (JArr [JNum (NInt (MSGTYPE_HANDSHAKE u)), JNum n])"]
    by (simp_all add: s2_def)
  have later: "workerStreams (run u evs' s2) pid = Some c \<and>
      workerMsgQueue (run u evs' s2) pid = None \<and>
      sent_on c (effects (run u evs' s2)) =
        map (user_envelope u) ?h @ map (user_envelope u) (posted u pid evs' s2)" for evs'
  proof -
    have b: "workerStreams (run u evs' s2) pid = Some c"
      by (rule binding_run [OF co2 b2])
    from run_invariants [OF co2 st2 tr2, of evs'] b
    have "sent_on c (effects (run u evs' s2)) =
        map (user_envelope u) (?h @ posted u pid evs' s2)"
      by (simp add: tracked_def)
    with b consistent_unqueued [OF consistent_run [OF co2] b] show ?thesis by simp
  qed
  from q silent b2 e2 se2 consistent_unqueued [OF co2 b2] later show ?thesis by blast
qed

text \<open>
  The scenario of PID 4321: two messages posted before the handshake and one after it
  reach the stream in the order 1, 2, 3.
\<close>

theorem queued_messages_flushed_in_order_witness:
  "workerStreams
     (run wwutil0
        [NewWorker ''w.js'' 4321, Connect,
         PostMessage 0 (JObj [(KName ''a'', JNum (NInt 1))]),
         PostMessage 0 (JObj [(KName ''a'', JNum (NInt 2))])] init) (KInt 4321) = None \<and>
   workers
     (run wwutil0
        [NewWorker ''w.js'' 4321, Connect,
         PostMessage 0 (JObj [(KName ''a'', JNum (NInt 1))]),
         PostMessage 0 (JObj [(KName ''a'', JNum (NInt 2))])] init) (KInt 4321) = Some 0 \<and>
   msgListener
     (run wwutil0
        [NewWorker ''w.js'' 4321, Connect,
         PostMessage 0 (JObj [(KName ''a'', JNum (NInt 1))]),
         PostMessage 0 (JObj [(KName ''a'', JNum (NInt 2))])] init) 0 = Some HandshakeListener \<and>
   number_key (NInt 4321) = KInt 4321 \<and>
   sent_on 0 (effects
     (run wwutil0 [PostMessage 0 (JObj [(KName ''a'', JNum (NInt 3))])]
        (exec wwutil0 (Msg 0 (JArr [JNum (NInt 1), JNum (NInt 4321)]))
           (run wwutil0
              [NewWorker ''w.js'' 4321, Connect,
               PostMessage 0 (JObj [(KName ''a'', JNum (NInt 1))]),
               PostMessage 0 (JObj [(KName ''a'', JNum (NInt 2))])] init)))) =
     [JArr [JNum (NInt 100), JObj [(KName ''a'', JNum (NInt 1))]],
      JArr [JNum (NInt 100), JObj [(KName ''a'', JNum (NInt 2))]],
      JArr [JNum (NInt 100), JObj [(KName ''a'', JNum (NInt 3))]]]"
proof -
  let ?evs = "[NewWorker ''w.js'' 4321, Connect,
         PostMessage 0 (JObj [(KName ''a'', JNum (NInt 1))]),
         PostMessage 0 (JObj [(KName ''a'', JNum (NInt 2))])]"
  let ?s = "run wwutil0 ?evs init"
  let ?s2 = "exec wwutil0 (Msg 0 (JArr [JNum (NInt 1), JNum (NInt 4321)])) ?s"
  let ?evs' = "[PostMessage 0 (JObj [(KName ''a'', JNum (NInt 3))])]"
  have h1: "workerStreams ?s (KInt 4321) = None" by (simp add: model_defs)
  have h2: "workers ?s (KInt 4321) = Some 0" by (simp add: model_defs)
  have h3: "msgListener ?s 0 = Some HandshakeListener" by (simp add: model_defs)
  have h5: "number_key (NInt 4321) = KInt 4321" by simp
  have hs: "MSGTYPE_HANDSHAKE wwutil0 = 1" "MSGTYPE_USER wwutil0 = 100"
    by (simp_all add: wwutil0_def)
  have p1: "posted wwutil0 (KInt 4321) ?evs init =
      [JObj [(KName ''a'', JNum (NInt 1))], JObj [(KName ''a'', JNum (NInt 2))]]"
    by (simp add: model_defs)
  have p2: "posted wwutil0 (KInt 4321) ?evs' ?s2 = [JObj [(KName ''a'', JNum (NInt 3))]]"
    by (simp add: model_defs)
  from queued_messages_flushed_in_order [OF h1 h2 h3 h5]
  have "sent_on 0 (effects (run wwutil0 ?evs' ?s2)) =
      map (user_envelope wwutil0) (posted wwutil0 (KInt 4321) ?evs init) @
      map (user_envelope wwutil0) (posted wwutil0 (KInt 4321) ?evs' ?s2)"
    unfolding hs by blast
  then have "sent_on 0 (effects (run wwutil0 ?evs' ?s2)) =
     [JArr [JNum (NInt 100), JObj [(KName ''a'', JNum (NInt 1))]],
      JArr [JNum (NInt 100), JObj [(KName ''a'', JNum (NInt 2))]],
      JArr [JNum (NInt 100), JObj [(KName ''a'', JNum (NInt 3))]]]"
    by (simp only: p1 p2) (simp add: user_envelope_def hs)
  with h1 h2 h3 h5 show ?thesis by blast
qed

subsection \<open>C2: a bad first message\<close>

text \<open>
  What the handshake listener does with a message that is anything but a pair of
  \<open>MSGTYPE_HANDSHAKE\<close> and a number naming a registered PID without a stream: one debug
  line, the end of the socket, and nothing else. The listener itself stays.
\<close>

lemma rejected_message_ends_socket:
  assumes "msgListener s c = Some HandshakeListener"
    and "\<not> (\<exists>n. m = JArr [JNum (NInt (MSGTYPE_HANDSHAKE u)), JNum n] \<and>
              workers s (number_key n) \<noteq> None \<and> workerStreams s (number_key n) = None)"
  shows "\<exists>d. exec u (Msg c m) s = emit [Debug d, End c] s"
proof -
  from handshake_reject [OF assms(2)] obtain d
    where "handshake_listener u c m s = emit [Debug d, End c] s" by blast
  with assms(1) have "exec u (Msg c m) s = emit [Debug d, End c] s"
    by (simp add: exec_def on_msg_def)
  then show ?thesis by blast
qed

text \<open>
  C2 does not hold of the code. On a connection that has the handshake listener, let a
  first message be rejected as above. The socket is then ended and the dictionaries are
  as before, but the handshake listener is still installed: when a handshake naming a
  registered PID without a stream arrives next on the same connection, the ended
  connection becomes the stream of that PID and gets the listener that calls
  \<open>handleMessage\<close>.
\<close>

theorem rejected_connection_is_bound_by_later_handshake:
  fixes u :: wwutil and c :: conn
  assumes l: "msgListener s c = Some HandshakeListener"
    and bad: "\<not> (\<exists>n. m = JArr [JNum (NInt (MSGTYPE_HANDSHAKE u)), JNum n] \<and>
              workers s (number_key n) \<noteq> None \<and> workerStreams s (number_key n) = None)"
    and w: "workers s pid = Some w" and ub: "workerStreams s pid = None"
    and n: "number_key n = pid"
  defines "s1 \<equiv> exec u (Msg c m) s"
  defines "s2 \<equiv> exec u (Msg c (JArr [JNum (NInt (MSGTYPE_HANDSHAKE u)), JNum n])) s1"
  shows "ended c s1 \<and> workers s1 = workers s \<and> workerStreams s1 = workerStreams s \<and>
         workerMsgQueue s1 = workerMsgQueue s \<and>
         msgListener s1 c = Some HandshakeListener \<and>
         ended c s2 \<and> workerStreams s2 pid = Some c \<and>
         msgListener s2 c = Some (Dispatcher pid)"
proof -
  from rejected_message_ends_socket [OF l bad] obtain d
    where s1: "s1 = emit [Debug d, End c] s" unfolding s1_def by blast
  have f1: "ended c s1" "workers s1 = workers s" "workerStreams s1 = workerStreams s"
    "workerMsgQueue s1 = workerMsgQueue s" "msgListener s1 c = Some HandshakeListener"
    using l by (simp_all add: s1 ended_def emit_def)
  have w1: "workers s1 pid = Some w" and ub1: "workerStreams s1 pid = None"
    using w ub by (simp_all add: f1)
  have s2: "s2 = handshake_listener u c (JArr [JNum (NInt (MSGTYPE_HANDSHAKE u)), JNum n]) s1"
    using f1(5) by (simp add: s2_def exec_def on_msg_def)
  note f2 = handshake_accept [OF w1 ub1 n, of u c, folded s2]
  have "ended c s2"
    using f1(1) by (simp add: ended_def f2)
  with f1 f2 show ?thesis by simp
qed

text \<open>
  The first message \<open>[0, 99]\<close> on a new connection ends it; the handshake for the
  registered PID 4321 that follows on the same connection binds it.
\<close>

theorem rejected_connection_is_bound_by_later_handshake_witness:
  "msgListener (run wwutil0 [NewWorker ''w.js'' 4321, Connect] init) 0 = Some HandshakeListener \<and>
   workers (run wwutil0 [NewWorker ''w.js'' 4321, Connect] init) (KInt 4321) = Some 0 \<and>
   workerStreams (run wwutil0 [NewWorker ''w.js'' 4321, Connect] init) (KInt 4321) = None \<and>
   number_key (NInt 4321) = KInt 4321 \<and>
   ended 0 (exec wwutil0 (Msg 0 (JArr [JNum (NInt 0), JNum (NInt 99)]))
              (run wwutil0 [NewWorker ''w.js'' 4321, Connect] init)) \<and>
   msgListener
     (exec wwutil0 (Msg 0 (JArr [JNum (NInt (MSGTYPE_HANDSHAKE wwutil0)), JNum (NInt 4321)]))
        (exec wwutil0 (Msg 0 (JArr [JNum (NInt 0), JNum (NInt 99)]))
           (run wwutil0 [NewWorker ''w.js'' 4321, Connect] init))) 0 =
     Some (Dispatcher (KInt 4321)) \<and>
   workerStreams
     (exec wwutil0 (Msg 0 (JArr [JNum (NInt (MSGTYPE_HANDSHAKE wwutil0)), JNum (NInt 4321)]))
        (exec wwutil0 (Msg 0 (JArr [JNum (NInt 0), JNum (NInt 99)]))
           (run wwutil0 [NewWorker ''w.js'' 4321, Connect] init))) (KInt 4321) = Some 0"
proof -
  let ?s = "run wwutil0 [NewWorker ''w.js'' 4321, Connect] init"
  let ?m = "JArr [JNum (NInt 0), JNum (NInt 99)]"
  have h1: "msgListener ?s 0 = Some HandshakeListener" by (simp add: model_defs)
  have h2: "\<not> (\<exists>n. ?m = JArr [JNum (NInt (MSGTYPE_HANDSHAKE wwutil0)), JNum n] \<and>
              workers ?s (number_key n) \<noteq> None \<and> workerStreams ?s (number_key n) = None)"
    by (simp add: wwutil0_def)
  have h3: "workers ?s (KInt 4321) = Some 0" by (simp add: model_defs)
  have h4: "workerStreams ?s (KInt 4321) = None" by (simp add: model_defs)
  have h5: "number_key (NInt 4321) = KInt 4321" by simp
  from rejected_connection_is_bound_by_later_handshake [OF h1 h2 h3 h4 h5] h1 h3 h4 h5
  show ?thesis by blast
qed

subsection \<open>C3: a bound stream stays\<close>

text \<open>
  C3. In a state reached from the start in which a PID has a stream, no sequence of
  events changes or removes that stream, and a handshake naming the PID on any connection
  is answered by the debug line for an invalid PID and the end of that connection, with
  no other change.
\<close>

theorem bound_channel_is_never_replaced:
  assumes "workerStreams (run u evs init) pid = Some c" and "number_key n = pid"
  shows "workerStreams (run u evs' (run u evs init)) pid = Some c \<and>
         handshake_listener u c' (JArr [JNum (NInt (MSGTYPE_HANDSHAKE u)), JNum n])
             (run u evs init) =
           emit [Debug InvalidPid, End c'] (run u evs init)"
proof -
  have "handshake_listener u c' (JArr [JNum (NInt (MSGTYPE_HANDSHAKE u)), JNum n])
             (run u evs init) = emit [Debug InvalidPid, End c'] (run u evs init)"
    using assms by (simp add: handshake_listener_def malformed_def)
  then show ?thesis
    using binding_run [OF consistent_reachable assms(1)] by simp
qed

text \<open>PID 7 is bound to connection 0; a second connection that names it changes nothing.\<close>

theorem bound_channel_is_never_replaced_witness:
  "workerStreams
     (run wwutil0 [NewWorker ''w.js'' 7, Connect, Msg 0 (JArr [JNum (NInt 1), JNum (NInt 7)])]
        init) (KInt 7) = Some 0 \<and>
   number_key (NInt 7) = KInt 7 \<and>
   workerStreams
     (run wwutil0 [Connect, Msg 1 (JArr [JNum (NInt 1), JNum (NInt 7)])]
        (run wwutil0
           [NewWorker ''w.js'' 7, Connect, Msg 0 (JArr [JNum (NInt 1), JNum (NInt 7)])] init))
     (KInt 7) = Some 0"
proof -
  let ?s = "run wwutil0
     [NewWorker ''w.js'' 7, Connect, Msg 0 (JArr [JNum (NInt 1), JNum (NInt 7)])] init"
  have h1: "workerStreams ?s (KInt 7) = Some 0" by (simp add: model_defs)
  have h2: "number_key (NInt 7) = KInt 7" by simp
  from bound_channel_is_never_replaced [OF h1 h2] h1 h2 show ?thesis by blast
qed

subsection \<open>C4: posting to an unknown PID\<close>

text \<open>
  C4. \<open>postMessage\<close> for a PID without an entry in \<open>workers\<close> throws the assertion
  error to its caller and leaves the state exactly as it was.
\<close>

theorem postMessage_unknown_worker:
  "workers s pid = None \<Longrightarrow> postMessage u pid msg s = (Some (AssertionError pid), s)"
  by (simp add: postMessage_def)

theorem postMessage_unknown_worker_witness:
  "workers (run wwutil0 [NewWorker ''w.js'' 7] init) (KInt 8) = None \<and>
   postMessage wwutil0 (KInt 8) (JStr ''hello'') (run wwutil0 [NewWorker ''w.js'' 7] init) =
     (Some (AssertionError (KInt 8)), run wwutil0 [NewWorker ''w.js'' 7] init)"
proof -
  have h: "workers (run wwutil0 [NewWorker ''w.js'' 7] init) (KInt 8) = None"
    by (simp add: model_defs)
  from postMessage_unknown_worker [OF h] h show ?thesis by blast
qed

subsection \<open>C5: registering a worker\<close>




subsection \<open>C6: an invalid message after the handshake\<close>




subsection \<open>C7: the order of spawning and registering\<close>

text \<open>
  C7 as stated fails: when the child has been spawned, its PID is not yet in \<open>workers\<close>;
  it is there when the constructor returns.
\<close>

theorem Worker_spawns_unregistered_counterexample:
  "effects (snd (Worker_spawn ''w.js'' 4321 init)) = [Listen, Spawn ''w.js'' 4321] \<and>
   workers (snd (Worker_spawn ''w.js'' 4321 init)) (KInt 4321) = None \<and>
   workers (Worker ''w.js'' 4321 init) (KInt 4321) = Some 0"
  by (simp add: model_defs)

text \<open>
  C7, amended. The constructor spawns the child first, which changes nothing in
  \<open>workers\<close>, and registers the new object under the PID after that, as its last
  statement. Between the two no effect happens and no listener changes, and the
  constructor is one event of a run: every event that follows it, a handshake among
  them, finds the PID registered.
\<close>

theorem Worker_spawns_before_it_registers:
  "effects (snd (Worker_spawn source pid s)) =
     effects (if master s then s else WorkerMaster s) @ [Spawn source pid] \<and>
   workers (snd (Worker_spawn source pid s)) =
     workers (if master s then s else WorkerMaster s) \<and>
   Worker source pid s =
     addWorker (KInt pid) (fst (Worker_spawn source pid s)) (snd (Worker_spawn source pid s)) \<and>
   workers (Worker source pid s) (KInt pid) = Some (fst (Worker_spawn source pid s)) \<and>
   effects (Worker source pid s) = effects (snd (Worker_spawn source pid s)) \<and>
   msgListener (Worker source pid s) = msgListener s \<and>
   (\<forall>evs. workers (run u evs (Worker source pid s)) (KInt pid) \<noteq> None)"
proof -
  have m: "master (Worker source pid s)"
    by (simp add: Worker_def Worker_spawn_def WorkerMaster_def addWorker_def emit_def Let_def)
  have w: "workers (Worker source pid s) (KInt pid) \<noteq> None"
    by (simp add: Worker_def Worker_spawn_def WorkerMaster_def addWorker_def emit_def
        cp_key_def Let_def)
  show ?thesis
    using registered_run [OF m w]
    by (simp add: Worker_def Worker_spawn_def WorkerMaster_def addWorker_def emit_def
        cp_key_def Let_def)
qed

theorem Worker_spawns_before_it_registers_witness:
  "effects (Worker ''w.js'' 4321 init) = [Listen, Spawn ''w.js'' 4321] \<and>
   workers (Worker ''w.js'' 4321 init) (KInt 4321) = Some 0 \<and>
   workers (run wwutil0 [Connect, Msg 0 (JArr [JNum (NInt 1), JNum (NInt 4321)])]
      (Worker ''w.js'' 4321 init)) (KInt 4321) \<noteq> None"
proof -
  have f: "fst (Worker_spawn ''w.js'' 4321 init) = 0"
    and e: "effects (snd (Worker_spawn ''w.js'' 4321 init)) = [Listen, Spawn ''w.js'' 4321]"
    by (simp_all add: model_defs)
  note t = Worker_spawns_before_it_registers [of "''w.js''" 4321 init wwutil0]
  from t have "effects (Worker ''w.js'' 4321 init) =
      effects (snd (Worker_spawn ''w.js'' 4321 init))" by blast
  with e have a: "effects (Worker ''w.js'' 4321 init) = [Listen, Spawn ''w.js'' 4321]"
    by simp
  from t have "workers (Worker ''w.js'' 4321 init) (KInt 4321) =
      Some (fst (Worker_spawn ''w.js'' 4321 init))" by blast
  with f have b: "workers (Worker ''w.js'' 4321 init) (KInt 4321) = Some 0" by simp
  from t have c: "workers (run wwutil0 [Connect, Msg 0 (JArr [JNum (NInt 1), JNum (NInt 4321)])]
      (Worker ''w.js'' 4321 init)) (KInt 4321) \<noteq> None" by blast
  from a b c show ?thesis by blast
qed

subsection \<open>C8: dispatch by message type\<close>

text \<open>
  What \<open>handleMessage\<close> does with a message that \<open>isValidMessage\<close> accepts, with first
  element \<open>t\<close> and second element \<open>p\<close>, for a registered PID: if \<open>t\<close> is \<open>MSGTYPE_USER\<close>
  and the \<open>Worker\<close> has an \<open>onmessage\<close>, that function is called with \<open>p\<close>; if \<open>t\<close> is
  \<open>MSGTYPE_NOOP\<close>, nothing happens; if \<open>t\<close> is neither and the message can be converted
  to a string, one debug line is written and nothing else happens.
\<close>

lemma handleMessage_cases:
  assumes "workers s pid = Some ww" and "heap s ww = Some obj"
    and "isValidMessage u msg" and "js_index msg 0 = Inr t" and "js_index msg 1 = Inr p"
    and "MSGTYPE_USER u \<noteq> MSGTYPE_NOOP u"
  shows "(t = JNum (NInt (MSGTYPE_USER u)) \<longrightarrow> onmessage obj = Some f \<longrightarrow>
            handleMessage u pid msg s = (None, emit [Call f p] s)) \<and>
         (t = JNum (NInt (MSGTYPE_NOOP u)) \<longrightarrow> handleMessage u pid msg s = (None, s)) \<and>
         (t \<noteq> JNum (NInt (MSGTYPE_USER u)) \<longrightarrow> t \<noteq> JNum (NInt (MSGTYPE_NOOP u)) \<longrightarrow>
          to_string_returns msg \<longrightarrow>
            handleMessage u pid msg s = (None, emit [Debug (UnexpectedMessage msg)] s))"
  using assms by (simp add: handleMessage_def)

text \<open>
  C8 does not hold of the code. A message that \<open>isValidMessage\<close> accepts, whose first
  element is neither \<open>MSGTYPE_NOOP\<close> nor \<open>MSGTYPE_USER\<close> and whose conversion to a string
  throws, is not logged and ignored: \<open>handleMessage\<close> throws the TypeError of the
  conversion out of the listener, and no debug line is written.
\<close>

theorem unexpected_message_can_throw:
  assumes "workers s pid = Some ww" and "isValidMessage u msg"
    and "js_index msg 0 = Inr t"
    and "t \<noteq> JNum (NInt (MSGTYPE_NOOP u))" and "t \<noteq> JNum (NInt (MSGTYPE_USER u))"
    and "\<not> to_string_returns msg"
  shows "handleMessage u pid msg s = (Some TypeError, s)"
  using assms by (simp add: handleMessage_def)

text \<open>The message \<open>[5, {toString: 1}]\<close> for the bound PID 7.\<close>

theorem unexpected_message_can_throw_witness:
  "workers
     (run wwutil0 [NewWorker ''w.js'' 7, Connect, Msg 0 (JArr [JNum (NInt 1), JNum (NInt 7)])]
        init) (KInt 7) = Some 0 \<and>
   isValidMessage wwutil0 (JArr [JNum (NInt 5), JObj [(KName ''toString'', JNum (NInt 1))]]) \<and>
   js_index (JArr [JNum (NInt 5), JObj [(KName ''toString'', JNum (NInt 1))]]) 0 =
     Inr (JNum (NInt 5)) \<and>
   JNum (NInt 5) \<noteq> JNum (NInt (MSGTYPE_NOOP wwutil0)) \<and>
   JNum (NInt 5) \<noteq> JNum (NInt (MSGTYPE_USER wwutil0)) \<and>
   \<not> to_string_returns (JArr [JNum (NInt 5), JObj [(KName ''toString'', JNum (NInt 1))]]) \<and>
   step wwutil0 (Msg 0 (JArr [JNum (NInt 5), JObj [(KName ''toString'', JNum (NInt 1))]]))
     (run wwutil0 [NewWorker ''w.js'' 7, Connect, Msg 0 (JArr [JNum (NInt 1), JNum (NInt 7)])]
        init) =
     (Some TypeError,
      run wwutil0 [NewWorker ''w.js'' 7, Connect, Msg 0 (JArr [JNum (NInt 1), JNum (NInt 7)])]
        init)"
proof -
  let ?s = "run wwutil0
     [NewWorker ''w.js'' 7, Connect, Msg 0 (JArr [JNum (NInt 1), JNum (NInt 7)])] init"
  let ?m = "JArr [JNum (NInt 5), JObj [(KName ''toString'', JNum (NInt 1))]]"
  have h1: "workers ?s (KInt 7) = Some 0" by (simp add: model_defs)
  have h2: "isValidMessage wwutil0 ?m" by (simp add: wwutil0_def)
  have h3: "js_index ?m 0 = Inr (JNum (NInt 5))" by simp
  have h4: "JNum (NInt 5) \<noteq> JNum (NInt (MSGTYPE_NOOP wwutil0))" by (simp add: wwutil0_def)
  have h5: "JNum (NInt 5) \<noteq> JNum (NInt (MSGTYPE_USER wwutil0))" by (simp add: wwutil0_def)
  have h6: "\<not> to_string_returns ?m" by simp
  have l: "msgListener ?s 0 = Some (Dispatcher (KInt 7))" by (simp add: model_defs)
  from unexpected_message_can_throw [OF h1 h2 h3 h4 h5 h6]
  have "step wwutil0 (Msg 0 ?m) ?s = (Some TypeError, ?s)"
    by (simp add: on_msg_def l)
  with h1 h2 h3 h4 h5 h6 show ?thesis by blast
qed

subsection \<open>C9: a USER message without a callback\<close>

text \<open>
  C9. A valid USER message for a registered PID whose \<open>Worker\<close> has no \<open>onmessage\<close>
  changes nothing and throws nothing: the state after it is the state before it, so the
  payload is kept nowhere, and setting \<open>onmessage\<close> afterwards calls nothing.
\<close>

theorem user_message_without_onmessage_is_dropped:
  assumes "workers s pid = Some ww" and "heap s ww = Some obj" and "onmessage obj = None"
    and "isValidMessage u msg" and "js_index msg 0 = Inr (JNum (NInt (MSGTYPE_USER u)))"
  shows "handleMessage u pid msg s = (None, s) \<and>
         effects (set_onmessage ww f (snd (handleMessage u pid msg s))) = effects s"
  using assms by (simp add: handleMessage_def set_onmessage_def)

theorem user_message_without_onmessage_is_dropped_witness:
  "workers (run wwutil0 [NewWorker ''w.js'' 7] init) (KInt 7) = Some 0 \<and>
   heap (run wwutil0 [NewWorker ''w.js'' 7] init) 0 =
     Some \<lparr>src = ''w.js'', cp = Some 7, cp_pid = 7, onmessage = None\<rparr> \<and>
   onmessage \<lparr>src = ''w.js'', cp = Some 7, cp_pid = 7, onmessage = None\<rparr> = None \<and>
   isValidMessage wwutil0 (JArr [JNum (NInt 100), JStr ''hi'']) \<and>
   js_index (JArr [JNum (NInt 100), JStr ''hi'']) 0 = Inr (JNum (NInt (MSGTYPE_USER wwutil0))) \<and>
   handleMessage wwutil0 (KInt 7) (JArr [JNum (NInt 100), JStr ''hi''])
       (run wwutil0 [NewWorker ''w.js'' 7] init) =
     (None, run wwutil0 [NewWorker ''w.js'' 7] init)"
proof -
  let ?s = "run wwutil0 [NewWorker ''w.js'' 7] init"
  let ?m = "JArr [JNum (NInt 100), JStr ''hi'']"
  let ?obj = "\<lparr>src = ''w.js'', cp = Some 7, cp_pid = 7, onmessage = None\<rparr>"
  have h1: "workers ?s (KInt 7) = Some 0" by (simp add: model_defs)
  have h2: "heap ?s 0 = Some ?obj" by (simp add: model_defs)
  have h3: "onmessage ?obj = None" by simp
  have h4: "isValidMessage wwutil0 ?m" by (simp add: wwutil0_def)
  have h5: "js_index ?m 0 = Inr (JNum (NInt (MSGTYPE_USER wwutil0)))" by (simp add: wwutil0_def)
  from user_message_without_onmessage_is_dropped [OF h1 h2 h3 h4 h5] h1 h2 h3 h4 h5
  show ?thesis by blast
qed

subsection \<open>C10: posting after the child has terminated\<close>



end
